theory Spec2Isabelle
  imports Complex_Main
begin

section \<open>Values, errors and the effect trace\<close>

text \<open>
  Go's \<^verbatim>\<open>error\<close> values. A driver, resolver or library error is opaque and carries its
  message; \<^verbatim>\<open>cerr.NewConnectionError(correlationId, code, message).WithCause(err)\<close> and
  \<^verbatim>\<open>cerr.NewInvalidStateError\<close> are the two domain kinds the components build.
  A nil \<^verbatim>\<open>error\<close> is \<open>None\<close> of \<open>error option\<close>.
\<close>

datatype error =
    DriverError string
  | ConnectionError string string string "error option"
  | InvalidStateError string string string

text \<open>
  Go's \<^verbatim>\<open>any\<close>: the dynamic values that cross the driver and the JSON library
  (\<open>Float64\<close> is what \<^verbatim>\<open>encoding/json\<close> reads a number back as, \<open>Other\<close> any value of
  another kind, named by its Go type).
  \<open>NilMap\<close> is a nil \<^verbatim>\<open>map[string]any\<close> held in an interface; a map is an association
  list whose order is the order one \<^verbatim>\<open>range\<close> loop visits it in.
\<close>

datatype any =
    Nil
  | Bool bool
  | Int64 int
  | Float64 real
  | Str string
  | Slice "any list"
  | Map "(string \<times> any) list"
  | NilMap
  | Other string

text \<open>
  Everything a component does to its collaborators, in order: the statements given to
  the pool with their bound values, and the calls of the logger.
\<close>

datatype event =
    Queried string "any list"
  | LogError string error string
  | LogDebug string string "any list"
  | LogTrace string string "any list"

type_synonym trace = "event list"

fun queries_of :: "trace \<Rightarrow> (string \<times> any list) list" where
  "queries_of [] = []"
| "queries_of (Queried q args # tr) = (q, args) # queries_of tr"
| "queries_of (e # tr) = queries_of tr"

fun errors_logged :: "trace \<Rightarrow> error list" where
  "errors_logged [] = []"
| "errors_logged (LogError corr e msg # tr) = e # errors_logged tr"
| "errors_logged (e # tr) = errors_logged tr"

text \<open>A Go call either returns or panics.\<close>

datatype 'a outcome = Panic string | Return 'a

subsection \<open>Strings\<close>

abbreviation DQ :: string where
  "DQ \<equiv> [CHR 0x22]"

text \<open>\<^verbatim>\<open>strconv.FormatInt(n, 10)\<close>.\<close>

fun FormatNat :: "nat \<Rightarrow> string" where
  "FormatNat n =
     (if n < 10 then [''0123456789'' ! n]
      else FormatNat (n div 10) @ [''0123456789'' ! (n mod 10)])"

declare FormatNat.simps [simp del]

definition FormatInt :: "int \<Rightarrow> string" where
  "FormatInt i = (if i < 0 then ''-'' @ FormatNat (nat (- i)) else FormatNat (nat i))"

text \<open>\<^verbatim>\<open>strings.ReplaceAll(s, "\"", "")\<close> and \<^verbatim>\<open>strings.Split(s, ",")\<close>.\<close>

definition ReplaceAll_quote :: "string \<Rightarrow> string" where
  "ReplaceAll_quote s = filter (\<lambda>ch. ch \<noteq> CHR 0x22) s"

fun Split_comma :: "string \<Rightarrow> string list" where
  "Split_comma [] = [[]]"
| "Split_comma (ch # s) =
     (if ch = CHR '','' then [] # Split_comma s
      else (case Split_comma s of
              [] \<Rightarrow> [[ch]]
            | w # ws \<Rightarrow> (ch # w) # ws))"

text \<open>Indexing a Go map: a missing key reads as the zero value of the value type.\<close>

definition index_any :: "(string \<times> any) list \<Rightarrow> string \<Rightarrow> any" where
  "index_any m k = (case map_of m k of None \<Rightarrow> Nil | Some v \<Rightarrow> v)"

definition index_str :: "(string \<times> string) list \<Rightarrow> string \<Rightarrow> string" where
  "index_str m k = (case map_of m k of None \<Rightarrow> [] | Some v \<Rightarrow> v)"

text \<open>Assigning \<^verbatim>\<open>m[k] = v\<close>.\<close>

fun assign :: "(string \<times> any) list \<Rightarrow> string \<Rightarrow> any \<Rightarrow> (string \<times> any) list" where
  "assign [] k v = [(k, v)]"
| "assign ((k', v') # m) k v = (if k' = k then (k, v) # m else (k', v') # assign m k v)"

subsection \<open>Result cursors of the driver\<close>

text \<open>
  A \<^verbatim>\<open>pgx.Rows\<close> cursor: the rows still to come, each with what \<^verbatim>\<open>Values()\<close> returns
  on it (the values, nil as \<open>None\<close>, and the error), the row under the cursor, the
  column names of \<^verbatim>\<open>FieldDescriptions()\<close> and what \<^verbatim>\<open>Err()\<close> reports.
\<close>

record Rows =
  pending :: "(any list option \<times> error option) list"
  current :: "any list option \<times> error option"
  FieldDescriptions :: "string list"
  Err :: "error option"

definition Next :: "Rows \<Rightarrow> bool \<times> Rows" where
  "Next r = (case pending r of
               [] \<Rightarrow> (False, r)
             | x # xs \<Rightarrow> (True, r\<lparr>pending := xs, current := x\<rparr>))"

definition Values :: "Rows \<Rightarrow> any list option \<times> error option" where
  "Values r = current r"

section \<open>Connection manager\<close>

text \<open>
  The parsed pool configuration (\<^verbatim>\<open>pgxpool.Config\<close>) and the pool. Durations are
  \<^verbatim>\<open>int64\<close> nanoseconds; the conversion wraps.
\<close>

definition wrap64 :: "int \<Rightarrow> int" where
  "wrap64 x = (x + 2 ^ 63) mod 2 ^ 64 - 2 ^ 63"

record PoolConfig =
  ConnectTimeout :: int
  Database :: string
  MaxConnIdleTime :: int
  MaxConns :: int

record Pool =
  Config :: PoolConfig

text \<open>
  The collaborators of \<^verbatim>\<open>PostgresConnection\<close>: the connection resolver, and the driver's
  \<^verbatim>\<open>pgxpool.ParseConfig\<close> and \<^verbatim>\<open>pgxpool.ConnectConfig\<close>, each returning Go's pair of a
  value and an error.
\<close>

record Driver =
  Resolve :: "string \<Rightarrow> string \<times> error option"
  ParseConfig :: "string \<Rightarrow> PoolConfig \<times> error option"
  ConnectConfig :: "PoolConfig \<Rightarrow> Pool option \<times> error option"

record PostgresConnection =
  Options :: "(string \<times> int) list"
  Connection :: "Pool option"
  DatabaseName :: string

definition OptionsConnectTimeoutDefault :: int where
  "OptionsConnectTimeoutDefault = 0"

definition OptionsIdleTimeoutDefault :: int where
  "OptionsIdleTimeoutDefault = 10000"

definition OptionsMaxPoolSizeDefault :: int where
  "OptionsMaxPoolSizeDefault = 3"

definition GetAsIntegerWithDefault :: "(string \<times> int) list \<Rightarrow> string \<Rightarrow> int \<Rightarrow> int" where
  "GetAsIntegerWithDefault opts k d = (case map_of opts k of None \<Rightarrow> d | Some v \<Rightarrow> v)"

definition NewPostgresConnection :: PostgresConnection where
  "NewPostgresConnection = \<lparr>Options = [], Connection = None, DatabaseName = []\<rparr>"

definition IsOpen :: "PostgresConnection \<Rightarrow> bool" where
  "IsOpen c = (case Connection c of None \<Rightarrow> False | Some p \<Rightarrow> True)"

definition GetConnection :: "PostgresConnection \<Rightarrow> Pool option" where
  "GetConnection c = Connection c"

definition GetDatabaseName :: "PostgresConnection \<Rightarrow> string" where
  "GetDatabaseName c = DatabaseName c"

text \<open>
  \<^verbatim>\<open>PostgresConnection.Open\<close>: the returned error, the connection afterwards and the
  trace. In its last branch the idle time and the pool size are assigned through
  \<^verbatim>\<open>pool.Config()\<close>, which hands out a copy of the pool's configuration: the two
  assignments do not reach the pool, which is kept as the driver made it.
\<close>

definition PostgresConnection_Open ::
  "Driver \<Rightarrow> PostgresConnection \<Rightarrow> string \<Rightarrow> trace
     \<Rightarrow> error option \<times> PostgresConnection \<times> trace" where
  "PostgresConnection_Open d c correlationId tr =
     (case Resolve d correlationId of
        (uri, Some err) \<Rightarrow>
          (None, c, tr @ [LogError correlationId err ''Failed to resolve Postgres connection''])
      | (uri, None) \<Rightarrow>
          (let maxPoolSize = GetAsIntegerWithDefault (Options c) ''max_pool_size'' OptionsMaxPoolSizeDefault;
               idleTimeoutMS = GetAsIntegerWithDefault (Options c) ''idle_timeout'' OptionsIdleTimeoutDefault;
               connectTimeoutMS = GetAsIntegerWithDefault (Options c) ''connect_timeout'' OptionsConnectTimeoutDefault
           in case ParseConfig d uri of
                (config, Some err) \<Rightarrow>
                  (None, c, tr @ [LogError correlationId err ''Failed to parse Postgres config string''])
              | (config, None) \<Rightarrow>
                  (let config1 = (if connectTimeoutMS > 0
                                  then config\<lparr>ConnectTimeout := wrap64 (wrap64 connectTimeoutMS * 1000000)\<rparr>
                                  else config);
                       tr1 = tr @ [LogDebug correlationId ''Connecting to postgres'' []]
                   in case ConnectConfig d config1 of
                        (pool, Some err) \<Rightarrow>
                          (Some (ConnectionError correlationId ''CONNECT_FAILED''
                                   ''Connection to postgres failed'' (Some err)), c, tr1)
                      | (None, None) \<Rightarrow>
                          (Some (ConnectionError correlationId ''CONNECT_FAILED''
                                   ''Connection to postgres failed'' None), c, tr1)
                      | (Some pool, None) \<Rightarrow>
                          (None, c\<lparr>Connection := Some pool, DatabaseName := Database config1\<rparr>,
                           tr1))))"

text \<open>
  \<^verbatim>\<open>Configure\<close> on the integer view of the options section: the given options, then the
  component's defaults, override what the connection held.
\<close>

definition PostgresConnection_defaultConfig :: "(string \<times> int) list" where
  "PostgresConnection_defaultConfig =
     [(''connect_timeout'', OptionsConnectTimeoutDefault),
      (''idle_timeout'', OptionsIdleTimeoutDefault),
      (''max_pool_size'', OptionsMaxPoolSizeDefault)]"

definition PostgresConnection_Configure ::
  "PostgresConnection \<Rightarrow> (string \<times> int) list \<Rightarrow> PostgresConnection" where
  "PostgresConnection_Configure c config =
     c\<lparr>Options := (config @ PostgresConnection_defaultConfig) @ Options c\<rparr>"

section \<open>Persistence component\<close>

text \<open>
  The libraries the persistence calls: the pool's \<^verbatim>\<open>Query\<close> (its answer may depend on
  everything that happened before), \<^verbatim>\<open>encoding/json\<close>, the commons converters, the
  random source behind \<^verbatim>\<open>rand.Int63n\<close> and the constant \<^verbatim>\<open>cdata.EmptyTotalValue\<close>.
\<close>

record Library =
  Query :: "Pool \<Rightarrow> trace \<Rightarrow> string \<Rightarrow> any list \<Rightarrow> error + Rows"
  json_Marshal :: "any \<Rightarrow> string \<times> error option"
  json_Unmarshal :: "string \<Rightarrow> (string \<times> any) list option \<times> error option"
  ToJson :: "any \<Rightarrow> string \<times> error option"
  ToLong :: "any \<Rightarrow> int"
  Int63 :: nat
  EmptyTotalValue :: int

text \<open>
  The id helpers of the data library. \<^verbatim>\<open>cmpersist.GenerateObjectId(&newItem)\<close> works on the
  entity boxed in \<^verbatim>\<open>newItem\<close>: it may panic, and else it gives the boxed entity with its
  id and, second, the caller's entity as it is afterwards (the same as before for a
  value, the changed one for a map or a pointer, which the box shares).
\<close>

record 'T IdLibrary =
  GenerateObjectId :: "'T \<Rightarrow> ('T \<times> 'T) outcome"
  GetObjectId :: "'T \<Rightarrow> any"

text \<open>
  \<^verbatim>\<open>IPostgresPersistenceOverrides\<close>, the conversions a concrete persistence supplies
  (\<^verbatim>\<open>DefineSchema\<close>, which acts on the component itself, is handed to \<open>Open\<close>).
\<close>

record 'T IPostgresPersistenceOverrides =
  ConvertFromPublic :: "'T \<Rightarrow> (string \<times> any) list option"
  ConvertToPublic :: "Rows \<Rightarrow> 'T outcome"
  ConvertFromPublicPartial :: "(string \<times> any) list option \<Rightarrow> (string \<times> any) list option"

record 'T PostgresPersistence =
  Overrides :: "'T IPostgresPersistenceOverrides"
  JsonConvertor :: "string \<Rightarrow> 'T \<times> error option"
  defaultValue :: 'T
  config :: "(string \<times> int) list option"
  opened :: bool
  localConnection :: bool
  schemaStatements :: "string list"
  Connection :: "PostgresConnection option"
  Client :: "Pool option"
  DatabaseName :: string
  SchemaName :: string
  TableName :: string
  MaxPageSize :: int

definition box_map :: "(string \<times> any) list option \<Rightarrow> any" where
  "box_map m = (case m of None \<Rightarrow> NilMap | Some kv \<Rightarrow> Map kv)"

definition spread :: "any list option \<Rightarrow> any list" where
  "spread vs = (case vs of None \<Rightarrow> [] | Some xs \<Rightarrow> xs)"

subsection \<open>Identifiers and schema statements\<close>

definition QuoteIdentifier :: "string \<Rightarrow> string" where
  "QuoteIdentifier v =
     (if v = [] then v
      else if hd v = CHR 0x27 then v
      else DQ @ v @ DQ)"

definition QuotedTableName :: "'T PostgresPersistence \<Rightarrow> string" where
  "QuotedTableName c =
     (if length (SchemaName c) > 0
      then QuoteIdentifier (SchemaName c) @ ''.'' @ QuoteIdentifier (TableName c)
      else QuoteIdentifier (TableName c))"

definition EnsureSchema :: "'T PostgresPersistence \<Rightarrow> string \<Rightarrow> 'T PostgresPersistence" where
  "EnsureSchema c schemaStatement =
     c\<lparr>schemaStatements := schemaStatements c @ [schemaStatement]\<rparr>"

definition ClearSchema :: "'T PostgresPersistence \<Rightarrow> 'T PostgresPersistence" where
  "ClearSchema c = c\<lparr>schemaStatements := []\<rparr>"

definition DefineSchema :: "'T PostgresPersistence \<Rightarrow> 'T PostgresPersistence" where
  "DefineSchema c =
     (if length (SchemaName c) > 0
      then EnsureSchema c (''CREATE SCHEMA IF NOT EXISTS '' @ QuoteIdentifier (SchemaName c))
      else c)"

fun EnsureIndex_fields :: "(string \<times> string) list \<Rightarrow> string list \<Rightarrow> string \<Rightarrow> string" where
  "EnsureIndex_fields keys [] fields0 = fields0"
| "EnsureIndex_fields keys (key # rest) fields0 =
     (let fields1 = (if fields0 \<noteq> [] then fields0 @ '', '' else fields0);
          fields2 = fields1 @ key;
          asc = index_str keys key;
          fields3 = (if asc \<noteq> ''1'' then fields2 @ '' DESC'' else fields2)
      in EnsureIndex_fields keys rest fields3)"

definition EnsureIndex ::
  "'T PostgresPersistence \<Rightarrow> string \<Rightarrow> (string \<times> string) list \<Rightarrow> (string \<times> string) list
     \<Rightarrow> 'T PostgresPersistence" where
  "EnsureIndex c name keys options =
     (let builder = ''CREATE'';
          builder1 = (if index_str options ''unique'' \<noteq> [] then builder @ '' UNIQUE'' else builder);
          indexName = QuoteIdentifier name;
          indexName1 = (if length (SchemaName c) > 0
                        then QuoteIdentifier (SchemaName c) @ ''.'' @ indexName
                        else indexName);
          builder2 = builder1 @ '' INDEX IF NOT EXISTS '' @ indexName1 @ '' ON '' @ QuotedTableName c;
          builder3 = (if index_str options ''type'' \<noteq> []
                      then builder2 @ '' '' @ index_str options ''type''
                      else builder2);
          fields4 = EnsureIndex_fields keys (map fst keys) [];
          builder4 = builder3 @ ''('' @ fields4 @ '')''
      in EnsureSchema c builder4)"

subsection \<open>Query builder\<close>

definition convertToMap :: "Library \<Rightarrow> any \<Rightarrow> trace \<Rightarrow> (string \<times> any) list option \<times> trace" where
  "convertToMap lib values tr =
     (case json_Marshal lib values of
        (mRes, Some mErr) \<Rightarrow>
          (None, tr @ [LogError ''PostgresPersistence'' mErr ''Error data convertion''])
      | (mRes, None) \<Rightarrow>
          (case json_Unmarshal lib mRes of
             (items, Some mErr) \<Rightarrow>
               (None, tr @ [LogError ''PostgresPersistence'' mErr ''Error data convertion''])
           | (items, None) \<Rightarrow> (items, tr)))"

fun GenerateColumns_range :: "string list \<Rightarrow> string \<Rightarrow> string" where
  "GenerateColumns_range [] result = result"
| "GenerateColumns_range (item # rest) result =
     GenerateColumns_range rest
       ((if result \<noteq> [] then result @ '','' else result) @ QuoteIdentifier item)"

definition GenerateColumns :: "Library \<Rightarrow> any \<Rightarrow> trace \<Rightarrow> string \<times> trace" where
  "GenerateColumns lib values tr =
     (case convertToMap lib values tr of
        (None, tr1) \<Rightarrow> ([], tr1)
      | (Some items, tr1) \<Rightarrow> (GenerateColumns_range (map fst items) [], tr1))"

fun GenerateParameters_loop :: "nat list \<Rightarrow> string \<Rightarrow> string" where
  "GenerateParameters_loop [] result = result"
| "GenerateParameters_loop (index # rest) result =
     GenerateParameters_loop rest
       ((if result \<noteq> [] then result @ '','' else result) @ ''$'' @ FormatInt (int index))"

definition GenerateParameters :: "Library \<Rightarrow> any \<Rightarrow> trace \<Rightarrow> string \<times> trace" where
  "GenerateParameters lib values tr =
     (case values of
        Slice val \<Rightarrow> (GenerateParameters_loop [1 ..< Suc (length val)] [], tr)
      | _ \<Rightarrow>
          (case convertToMap lib values tr of
             (None, tr1) \<Rightarrow> ([], tr1)
           | (Some items, tr1) \<Rightarrow>
               (GenerateParameters_loop [1 ..< Suc (length items)] [], tr1)))"



definition GenerateValues ::
  "Library \<Rightarrow> string \<Rightarrow> any \<Rightarrow> trace \<Rightarrow> any list option outcome \<times> trace" where
  "GenerateValues lib columns values tr =
     (case convertToMap lib values tr of
        (None, tr1) \<Rightarrow> (Return None, tr1)
      | (Some items, tr1) \<Rightarrow>
          (if columns = []
           then (Panic ''GenerateValues: Columns must be set for properly convert'', tr1)
           else (let columnNames = Split_comma (ReplaceAll_quote columns)
                 in (Return (Some (map (\<lambda>item. index_any items item) columnNames)), tr1))))"

subsection \<open>Converter\<close>

fun ConvertToPublic_range ::
  "string list \<Rightarrow> any list \<Rightarrow> (string \<times> any) list \<Rightarrow> (string \<times> any) list outcome" where
  "ConvertToPublic_range [] values buf = Return buf"
| "ConvertToPublic_range (column # rest) values buf =
     (case values of
        [] \<Rightarrow> Panic ''index out of range''
      | v # vs \<Rightarrow> ConvertToPublic_range rest vs (assign buf column v))"

text \<open>The relational strategy, \<^verbatim>\<open>PostgresPersistence.ConvertToPublic\<close>.\<close>

definition PostgresPersistence_ConvertToPublic ::
  "Library \<Rightarrow> 'T PostgresPersistence \<Rightarrow> Rows \<Rightarrow> 'T outcome" where
  "PostgresPersistence_ConvertToPublic lib c rows =
     (case Values rows of
        (values, Some valErr) \<Rightarrow> Return (defaultValue c)
      | (None, None) \<Rightarrow> Return (defaultValue c)
      | (Some values, None) \<Rightarrow>
          (case ConvertToPublic_range (FieldDescriptions rows) values [] of
             Panic p \<Rightarrow> Panic p
           | Return buf \<Rightarrow>
               (case ToJson lib (Map buf) of
                  (jsonBuf, jsonErr) \<Rightarrow>
                    (case JsonConvertor c jsonBuf of
                       (item, itemErr) \<Rightarrow> Return item))))"

text \<open>The document strategy, \<^verbatim>\<open>IdentifiableJsonPostgresPersistence.ConvertToPublic\<close>.\<close>

definition IdentifiableJsonPostgresPersistence_ConvertToPublic ::
  "Library \<Rightarrow> 'T PostgresPersistence \<Rightarrow> Rows \<Rightarrow> 'T outcome" where
  "IdentifiableJsonPostgresPersistence_ConvertToPublic lib c rows =
     (case Values rows of
        (values, Some valErr) \<Rightarrow> Return (defaultValue c)
      | (None, None) \<Rightarrow> Return (defaultValue c)
      | (Some values, None) \<Rightarrow>
          (case ConvertToPublic_range (FieldDescriptions rows) values [] of
             Panic p \<Rightarrow> Panic p
           | Return buf \<Rightarrow>
               (let item = (case map_of buf ''data'' of
                              Some v \<Rightarrow> v
                            | None \<Rightarrow> Map buf)
                in case ToJson lib item of
                     (jsonBuf, jsonErr) \<Rightarrow>
                       (case JsonConvertor c jsonBuf of
                          (item1, itemErr) \<Rightarrow> Return item1))))"

subsection \<open>Schema bootstrap and opening\<close>

fun CreateSchema_statements ::
  "Library \<Rightarrow> Pool \<Rightarrow> string \<Rightarrow> string list \<Rightarrow> trace \<Rightarrow> trace" where
  "CreateSchema_statements lib client correlationId [] tr = tr"
| "CreateSchema_statements lib client correlationId (dml # rest) tr =
     (case Query lib client tr dml [] of
        Inl err \<Rightarrow>
          CreateSchema_statements lib client correlationId rest
            (tr @ [Queried dml [],
                   LogError correlationId err ''Failed to autocreate database object''])
      | Inr qResult \<Rightarrow>
          CreateSchema_statements lib client correlationId rest (tr @ [Queried dml []]))"

definition CreateSchema_objects ::
  "Library \<Rightarrow> 'T PostgresPersistence \<Rightarrow> Pool \<Rightarrow> string \<Rightarrow> Rows \<Rightarrow> trace
     \<Rightarrow> error option outcome \<times> trace" where
  "CreateSchema_objects lib c client correlationId qResult tr =
     (let tr1 = tr @ [LogDebug correlationId
                        (''Table '' @ QuotedTableName c @ '' does not exist. Creating database objects...'') []];
          tr2 = CreateSchema_statements lib client correlationId (schemaStatements c) tr1
      in (Return (Err qResult), tr2))"

definition CreateSchema ::
  "Library \<Rightarrow> 'T PostgresPersistence \<Rightarrow> string \<Rightarrow> trace \<Rightarrow> error option outcome \<times> trace" where
  "CreateSchema lib c correlationId tr =
     (if schemaStatements c = [] then (Return None, tr)
      else
        (case Client c of
           None \<Rightarrow> (Panic ''nil pointer dereference'', tr)
         | Some client \<Rightarrow>
             (let query = ''SELECT to_regclass('' @ [CHR 0x27] @ QuotedTableName c @ [CHR 0x27] @ '')'';
                  tr1 = tr @ [Queried query []]
              in case Query lib client tr query [] of
                   Inl qErr \<Rightarrow> (Return (Some qErr), tr1)
                 | Inr qResult \<Rightarrow>
                     (case Next qResult of
                        (True, qResult1) \<Rightarrow>
                          (case Values qResult1 of
                             (val, Some cErr) \<Rightarrow> (Return (Some cErr), tr1)
                           | (val, None) \<Rightarrow>
                               (if length (spread val) > 0 \<and> hd (spread val) = Str (TableName c)
                                then (Return None, tr1)
                                else CreateSchema_objects lib c client correlationId qResult1 tr1))
                      | (False, qResult1) \<Rightarrow>
                          CreateSchema_objects lib c client correlationId qResult1 tr1))))"

definition createConnection :: "'T PostgresPersistence \<Rightarrow> PostgresConnection" where
  "createConnection c =
     (case config c of
        None \<Rightarrow> NewPostgresConnection
      | Some cfg \<Rightarrow> PostgresConnection_Configure NewPostgresConnection cfg)"

text \<open>
  \<^verbatim>\<open>PostgresPersistence.Open\<close>; \<open>defineSchema\<close> is the \<^verbatim>\<open>DefineSchema\<close> of the overrides.
  The connection is set by the second statement, so the \<^verbatim>\<open>NO_CONNECTION\<close> branch is
  never taken.
\<close>

definition PostgresPersistence_Open ::
  "Driver \<Rightarrow> Library \<Rightarrow> ('T PostgresPersistence \<Rightarrow> 'T PostgresPersistence)
     \<Rightarrow> 'T PostgresPersistence \<Rightarrow> string \<Rightarrow> trace
     \<Rightarrow> error option outcome \<times> 'T PostgresPersistence \<times> trace" where
  "PostgresPersistence_Open d lib defineSchema c correlationId tr =
     (if opened c then (Return None, c, tr)
      else
        (let c1 = (case Connection c of
                     None \<Rightarrow> c\<lparr>Connection := Some (createConnection c), localConnection := True\<rparr>
                   | Some conn \<Rightarrow> c)
         in case Connection c1 of
              None \<Rightarrow>
                (Return (Some (InvalidStateError correlationId ''NO_CONNECTION''
                                 ''PostgreSQL connection is missing'')),
                 c1\<lparr>opened := False\<rparr>, tr)
            | Some conn \<Rightarrow>
                (case (if localConnection c1
                       then PostgresConnection_Open d conn correlationId tr
                       else (None, conn, tr)) of
                   (err, conn1, tr1) \<Rightarrow>
                     (let c2 = c1\<lparr>Connection := Some conn1\<rparr>;
                          err1 = (case err of
                                    Some e \<Rightarrow> Some e
                                  | None \<Rightarrow>
                                      (if IsOpen conn1 then None
                                       else Some (ConnectionError correlationId ''CONNECT_FAILED''
                                                    ''PostgreSQL connection is not opened'' None)));
                          c3 = c2\<lparr>opened := False\<rparr>
                      in case err1 of
                           Some e \<Rightarrow> (Return (Some e), c3, tr1)
                         | None \<Rightarrow>
                             (let c4 = c3\<lparr>Client := GetConnection conn1,
                                          DatabaseName := GetDatabaseName conn1\<rparr>;
                                  c5 = defineSchema c4
                              in case CreateSchema lib c5 correlationId tr1 of
                                   (Panic p, tr2) \<Rightarrow> (Panic p, c5, tr2)
                                 | (Return (Some e), tr2) \<Rightarrow>
                                     (Return (Some (ConnectionError correlationId ''CONNECT_FAILED''
                                                      ''Connection to postgres failed'' (Some e))),
                                      c5\<lparr>Client := None\<rparr>, tr2)
                                 | (Return None, tr2) \<Rightarrow>
                                     (Return None, c5\<lparr>opened := True\<rparr>,
                                      tr2 @ [LogDebug correlationId
                                               ''Connected to postgres database %s, collection %s''
                                               [Str (DatabaseName c5), Str (QuotedTableName c5)]]))))))"

subsection \<open>Paging\<close>

text \<open>
  \<^verbatim>\<open>cdata.DataPage[T]\<close> with its two constructors: the items and the total, which is
  \<^verbatim>\<open>cdata.EmptyTotalValue\<close> when no count was asked for.
\<close>

record 'T DataPage =
  Data :: "'T list"
  Total :: int

definition NewDataPage :: "'T list \<Rightarrow> int \<Rightarrow> 'T DataPage" where
  "NewDataPage items totalCount = \<lparr>Data = items, Total = totalCount\<rparr>"

definition NewEmptyDataPage :: "Library \<Rightarrow> 'T DataPage" where
  "NewEmptyDataPage lib = \<lparr>Data = [], Total = EmptyTotalValue lib\<rparr>"

text \<open>
  Modelled from the spec: \<^verbatim>\<open>cdata.PagingParams\<close> and its accessors \<^verbatim>\<open>GetSkip\<close> and
  \<^verbatim>\<open>GetTake\<close> belong to the commons library and are not among the sources. The spec
  gives paging parameters a \<open>skip\<close> (offset, -1 meaning unset), a \<open>take\<close> (limit,
  defaulting to a configured maximum page size) and a \<open>total\<close> flag.
\<close>

record PagingParams =
  Skip :: "int option"
  Take :: "int option"
  Total :: bool

definition GetSkip :: "PagingParams \<Rightarrow> int \<Rightarrow> int" where
  "GetSkip paging minSkip = (case Skip paging of None \<Rightarrow> minSkip | Some skipN \<Rightarrow> skipN)"

definition GetTake :: "PagingParams \<Rightarrow> int \<Rightarrow> int" where
  "GetTake paging maxTake = (case Take paging of None \<Rightarrow> maxTake | Some takeN \<Rightarrow> takeN)"

subsection \<open>CRUD engine\<close>

text \<open>The loop \<^verbatim>\<open>for qResult.Next() { items = append(items, ConvertToPublic(qResult)) }\<close>.\<close>

function collect_rows ::
  "(Rows \<Rightarrow> 'T outcome) \<Rightarrow> Rows \<Rightarrow> 'T list \<Rightarrow> 'T list outcome \<times> Rows" where
  "collect_rows conv qResult items =
     (case Next qResult of
        (False, qResult1) \<Rightarrow> (Return items, qResult1)
      | (True, qResult1) \<Rightarrow>
          (case conv qResult1 of
             Panic p \<Rightarrow> (Panic p, qResult1)
           | Return item \<Rightarrow> collect_rows conv qResult1 (items @ [item])))"
  by pat_completeness auto
termination
  by (relation "measure (\<lambda>(conv, qResult, items). length (pending qResult))")
     (auto simp: Next_def split: list.splits)

declare collect_rows.simps [simp del]

definition count_of_rows :: "Library \<Rightarrow> Rows \<Rightarrow> int" where
  "count_of_rows lib qResult =
     (case fst (Values qResult) of
        Some [row] \<Rightarrow> ToLong lib row
      | _ \<Rightarrow> 0)"

text \<open>
  \<^verbatim>\<open>GetPageByFilter\<close>, first the statement it builds (up to \<^verbatim>\<open>query += " LIMIT " + ...\<close>),
  then the function.
\<close>

definition GetPageByFilter_query ::
  "'T PostgresPersistence \<Rightarrow> any \<Rightarrow> PagingParams \<Rightarrow> any \<Rightarrow> any \<Rightarrow> string" where
  "GetPageByFilter_query c filterArg paging sortArg sel =
     (let query0 = ''SELECT * FROM '' @ QuotedTableName c;
          query1 = (case sel of
                      Str slct \<Rightarrow>
                        (if slct \<noteq> [] then ''SELECT '' @ slct @ '' FROM '' @ QuotedTableName c
                         else query0)
                    | _ \<Rightarrow> query0);
          skipN = GetSkip paging (- 1);
          takeN = GetTake paging (MaxPageSize c);
          query2 = (case filterArg of
                      Str flt \<Rightarrow> (if flt \<noteq> [] then query1 @ '' WHERE '' @ flt else query1)
                    | _ \<Rightarrow> query1);
          query3 = (case sortArg of
                      Str srt \<Rightarrow> (if srt \<noteq> [] then query2 @ '' ORDER BY '' @ srt else query2)
                    | _ \<Rightarrow> query2);
          query4 = (if skipN \<ge> 0 then query3 @ '' OFFSET '' @ FormatInt skipN else query3)
      in query4 @ '' LIMIT '' @ FormatInt takeN)"

definition GetPageByFilter ::
  "Library \<Rightarrow> 'T PostgresPersistence \<Rightarrow> string \<Rightarrow> any \<Rightarrow> PagingParams \<Rightarrow> any \<Rightarrow> any \<Rightarrow> trace
     \<Rightarrow> ('T DataPage \<times> error option) outcome \<times> trace" where
  "GetPageByFilter lib c correlationId filterArg paging sortArg sel tr =
     (let query = GetPageByFilter_query c filterArg paging sortArg sel;
          pagingEnabled = Total paging
      in case Client c of
           None \<Rightarrow> (Panic ''nil pointer dereference'', tr)
         | Some client \<Rightarrow>
             (let tr1 = tr @ [Queried query []]
              in case Query lib client tr query [] of
                   Inl qErr \<Rightarrow> (Return (NewEmptyDataPage lib, Some qErr), tr1)
                 | Inr qResult \<Rightarrow>
                     (case collect_rows (ConvertToPublic (Overrides c)) qResult [] of
                        (Panic p, qResultEnd) \<Rightarrow> (Panic p, tr1)
                      | (Return items, qResultEnd) \<Rightarrow>
                          (let tr2 = tr1 @ [LogTrace correlationId ''Retrieved %d from %s''
                                              [Int64 (int (length items)), Str (TableName c)]]
                           in if pagingEnabled
                              then
                                (let countQuery0 = ''SELECT COUNT(*) AS count FROM '' @ QuotedTableName c;
                                     countQuery = (case filterArg of
                                                     Str flt \<Rightarrow>
                                                       (if flt \<noteq> [] then countQuery0 @ '' WHERE '' @ flt
                                                        else countQuery0)
                                                   | _ \<Rightarrow> countQuery0);
                                     tr3 = tr2 @ [Queried countQuery []]
                                 in case Query lib client tr2 countQuery [] of
                                      Inl qErr2 \<Rightarrow> (Return (NewEmptyDataPage lib, Some qErr2), tr3)
                                    | Inr qResult2 \<Rightarrow>
                                        (case Next qResult2 of
                                           (True, qResult3) \<Rightarrow>
                                             (Return (NewDataPage items (count_of_rows lib qResult3),
                                                      Err qResult3), tr3)
                                         | (False, qResult3) \<Rightarrow>
                                             (Return (NewDataPage items 0, Err qResult3), tr3)))
                              else (Return (NewDataPage items (EmptyTotalValue lib), Err qResultEnd),
                                    tr2)))))"

text \<open>\<^verbatim>\<open>rand.Int63n(n)\<close>: panics unless \<open>n\<close> is positive, else a number below \<open>n\<close>.\<close>

definition Int63n :: "Library \<Rightarrow> int \<Rightarrow> int outcome" where
  "Int63n lib n =
     (if n \<le> 0 then Panic ''invalid argument to Int63n''
      else Return (int (Int63 lib) mod n))"

definition random_count :: "Rows \<Rightarrow> int" where
  "random_count qResult =
     (case fst (Values qResult) of
        Some [Int64 row] \<Rightarrow> row
      | _ \<Rightarrow> 0)"

definition GetOneRandom ::
  "Library \<Rightarrow> 'T PostgresPersistence \<Rightarrow> string \<Rightarrow> any \<Rightarrow> trace
     \<Rightarrow> ('T \<times> error option) outcome \<times> trace" where
  "GetOneRandom lib c correlationId filterArg tr =
     (let item = defaultValue c;
          countQuery0 = ''SELECT COUNT(*) AS count FROM '' @ QuotedTableName c;
          countQuery = (case filterArg of
                          Str flt \<Rightarrow>
                            (if flt \<noteq> [] then countQuery0 @ '' WHERE '' @ flt else countQuery0)
                        | _ \<Rightarrow> countQuery0)
      in case Client c of
           None \<Rightarrow> (Panic ''nil pointer dereference'', tr)
         | Some client \<Rightarrow>
             (let tr1 = tr @ [Queried countQuery []]
              in case Query lib client tr countQuery [] of
                   Inl qErr \<Rightarrow> (Return (item, Some qErr), tr1)
                 | Inr qResult \<Rightarrow>
                     (let qErr = None;
                          query0 = ''SELECT * FROM '' @ QuotedTableName c;
                          query = (case filterArg of
                                     Str flt \<Rightarrow>
                                       (if flt \<noteq> [] then query0 @ '' WHERE '' @ flt else query0)
                                   | _ \<Rightarrow> query0)
                      in case Next qResult of
                           (False, qResult1) \<Rightarrow> (Return (item, Err qResult1), tr1)
                         | (True, qResult1) \<Rightarrow>
                             (let count = random_count qResult1
                              in if count = 0
                                 then (Return (item, None),
                                       tr1 @ [LogTrace correlationId
                                                (''Can'' @ [CHR 0x27] @ ''t retriev random item from %s. Table is empty.'')
                                                [Str (TableName c)]])
                                 else
                                   (case Int63n lib count of
                                      Panic p \<Rightarrow> (Panic p, tr1)
                                    | Return pos \<Rightarrow>
                                        (let query1 = query @ '' OFFSET '' @ FormatInt pos @ '' LIMIT 1'';
                                             tr2 = tr1 @ [Queried query1 []]
                                         in case Query lib client tr1 query1 [] of
                                              Inl qErr2 \<Rightarrow> (Return (item, qErr), tr2)
                                            | Inr qResult2 \<Rightarrow>
                                                (case Next qResult2 of
                                                   (False, qResult3) \<Rightarrow>
                                                     (Return (item, Err qResult3),
                                                      tr2 @ [LogTrace correlationId
                                                               (''Random item wasn'' @ [CHR 0x27] @ ''t found from %s'')
                                                               [Str (TableName c)]])
                                                 | (True, qResult3) \<Rightarrow>
                                                     (case ConvertToPublic (Overrides c) qResult3 of
                                                        Panic p \<Rightarrow> (Panic p, tr2)
                                                      | Return item1 \<Rightarrow>
                                                          (Return (item1, None),
                                                           tr2 @ [LogTrace correlationId
                                                                    ''Retrieved random item from %s''
                                                                    [Str (TableName c)]])))))))))"

definition PostgresPersistence_Create ::
  "Library \<Rightarrow> 'T IdLibrary \<Rightarrow> 'T PostgresPersistence \<Rightarrow> string \<Rightarrow> 'T \<Rightarrow> trace
     \<Rightarrow> ('T \<times> error option) outcome \<times> trace" where
  "PostgresPersistence_Create lib idlib c correlationId item tr =
     (let result = defaultValue c;
          row = box_map (ConvertFromPublic (Overrides c) item)
      in case GenerateColumns lib row tr of
           (columns, tr1) \<Rightarrow>
             (case GenerateParameters lib row tr1 of
                (params, tr2) \<Rightarrow>
                  (case GenerateValues lib columns row tr2 of
                     (Panic p, tr3) \<Rightarrow> (Panic p, tr3)
                   | (Return values, tr3) \<Rightarrow>
                       (let query = ''INSERT INTO '' @ QuotedTableName c @ '' ('' @ columns
                                      @ '') VALUES ('' @ params @ '') RETURNING *''
                        in case Client c of
                             None \<Rightarrow> (Panic ''nil pointer dereference'', tr3)
                           | Some client \<Rightarrow>
                               (let tr4 = tr3 @ [Queried query (spread values)]
                                in case Query lib client tr3 query (spread values) of
                                     Inl qErr \<Rightarrow> (Return (result, Some qErr), tr4)
                                   | Inr qResult \<Rightarrow>
                                       (case Next qResult of
                                          (False, qResult1) \<Rightarrow> (Return (result, Err qResult1), tr4)
                                        | (True, qResult1) \<Rightarrow>
                                            (case ConvertToPublic (Overrides c) qResult1 of
                                               Panic p \<Rightarrow> (Panic p, tr4)
                                             | Return item1 \<Rightarrow>
                                                 (Return (item1, None),
                                                  tr4 @ [LogTrace correlationId
                                                           ''Created in %s with id = %s''
                                                           [Str (TableName c),
                                                            GetObjectId idlib item1]]))))))))"

subsection \<open>CRUD engine, identifiable extension\<close>

definition IdentifiablePostgresPersistence_Create ::
  "Library \<Rightarrow> 'T IdLibrary \<Rightarrow> 'T PostgresPersistence \<Rightarrow> string \<Rightarrow> 'T \<Rightarrow> trace
     \<Rightarrow> ('T \<times> error option) outcome \<times> trace" where
  "IdentifiablePostgresPersistence_Create lib idlib c correlationId item tr =
     (case GenerateObjectId idlib item of
        Panic p \<Rightarrow> (Panic p, tr)
      | Return (newItem, item1) \<Rightarrow>
          PostgresPersistence_Create lib idlib c correlationId newItem tr)"

text \<open>
  \<^verbatim>\<open>Create\<close>, \<^verbatim>\<open>Set\<close> and \<^verbatim>\<open>Update\<close> of \<^verbatim>\<open>IdentifiablePostgresPersistence\<close> are taken from the
  source file that also holds the base persistence and its query builder. \<^verbatim>\<open>Set\<close> calls
  the id generator first and builds the row from the entity \<^verbatim>\<open>item\<close> as it is after that
  call.

  What \<^verbatim>\<open>Set\<close>, \<^verbatim>\<open>Update\<close> and \<^verbatim>\<open>UpdatePartially\<close> do with the answer to their
  statement: the query error, else \<^verbatim>\<open>Next\<close>, \<^verbatim>\<open>Values\<close> and \<^verbatim>\<open>ConvertToPublic\<close>. When the
  row cannot be used, \<^verbatim>\<open>Set\<close> and \<^verbatim>\<open>Update\<close> return the error of \<^verbatim>\<open>Values\<close> and the
  document variant's \<^verbatim>\<open>UpdatePartially\<close> returns \<^verbatim>\<open>rows.Err()\<close> (\<open>errFromRows\<close>).
\<close>

definition returned_row ::
  "'T PostgresPersistence \<Rightarrow> string \<Rightarrow> string \<Rightarrow> any \<Rightarrow> error + Rows \<Rightarrow> bool \<Rightarrow> trace
     \<Rightarrow> ('T \<times> error option) outcome \<times> trace" where
  "returned_row c correlationId message idValue answer errFromRows tr =
     (let result = defaultValue c
      in case answer of
           Inl qErr \<Rightarrow> (Return (result, Some qErr), tr)
         | Inr qResult \<Rightarrow>
             (case Next qResult of
                (False, qResult1) \<Rightarrow> (Return (result, Err qResult1), tr)
              | (True, qResult1) \<Rightarrow>
                  (case Values qResult1 of
                     (rows, Some vErr) \<Rightarrow>
                       (Return (result, if errFromRows then Err qResult1 else Some vErr), tr)
                   | (rows, None) \<Rightarrow>
                       (if length (spread rows) > 0
                        then (case ConvertToPublic (Overrides c) qResult1 of
                                Panic p \<Rightarrow> (Panic p, tr)
                              | Return result1 \<Rightarrow>
                                  (Return (result1, None),
                                   tr @ [LogTrace correlationId message [Str (TableName c), idValue]]))
                        else (Return (result, if errFromRows then Err qResult1 else None), tr)))))"



subsection \<open>Document variant\<close>

text \<open>\<^verbatim>\<open>IdentifiableJsonPostgresPersistence.UpdatePartially\<close>.\<close>

definition IdentifiableJsonPostgresPersistence_UpdatePartially ::
  "Library \<Rightarrow> 'T PostgresPersistence \<Rightarrow> string \<Rightarrow> any \<Rightarrow> (string \<times> any) list option \<Rightarrow> trace
     \<Rightarrow> ('T \<times> error option) outcome \<times> trace" where
  "IdentifiableJsonPostgresPersistence_UpdatePartially lib c correlationId idValue data tr =
     (let query = ''UPDATE '' @ QuotedTableName c @ '' SET '' @ DQ @ ''data'' @ DQ @ ''='' @ DQ
                    @ ''data'' @ DQ @ ''||$2 WHERE '' @ DQ @ ''id'' @ DQ @ ''=$1 RETURNING *'';
          values = [idValue, box_map data]
      in case Client c of
           None \<Rightarrow> (Panic ''nil pointer dereference'', tr)
         | Some client \<Rightarrow>
             returned_row c correlationId ''Updated partially in %s with id = %s'' idValue
               (Query lib client tr query values) True
               (tr @ [Queried query values]))"

text \<open>
  Modelled from the spec: the store's \<^verbatim>\<open>data || patch\<close> on JSON documents is the
  database engine's operator and not among the sources. The spec calls it a shallow JSON
  merge: sibling keys preserved, patch keys overwritten.
\<close>

definition jsonb_concat :: "(string \<times> any) list \<Rightarrow> (string \<times> any) list \<Rightarrow> (string \<times> any) list" where
  "jsonb_concat stored patch = foldl (\<lambda>doc (k, v). assign doc k v) stored patch"

section \<open>Specification-side notions\<close>

text \<open>
  The statement shape the specification gives for a page query,
  \<^verbatim>\<open>SELECT [projection|*] FROM table [WHERE filter] [ORDER BY sort] [OFFSET skip] LIMIT take\<close>,
  written from its words: a clause is there exactly when its text is non-empty, the
  offset exactly when it is not negative.
\<close>

definition spec_page_query :: "string \<Rightarrow> string \<Rightarrow> string \<Rightarrow> string \<Rightarrow> int \<Rightarrow> int \<Rightarrow> string" where
  "spec_page_query table projection filterText sortText skipN takeN =
     ''SELECT '' @ (if projection = [] then ''*'' else projection)
     @ '' FROM '' @ table
     @ (if filterText = [] then [] else '' WHERE '' @ filterText)
     @ (if sortText = [] then [] else '' ORDER BY '' @ sortText)
     @ (if skipN \<ge> 0 then '' OFFSET '' @ FormatInt skipN else [])
     @ '' LIMIT '' @ FormatInt takeN"

text \<open>The string an \<^verbatim>\<open>any\<close> argument gives, empty when it holds no string.\<close>

fun string_arg :: "any \<Rightarrow> string" where
  "string_arg (Str s) = s"
| "string_arg other = []"




text \<open>
  The column names of a column list: its comma-separated parts, each without its double
  quotes.
\<close>

definition spec_column_names :: "string \<Rightarrow> string list" where
  "spec_column_names columnList = map (filter (\<lambda>ch. ch \<noteq> CHR 0x22)) (Split_comma columnList)"

text \<open>
  The statement by which \<^verbatim>\<open>CreateSchema\<close> asks the catalog for the table, what its answer
  says about the table (the test \<^verbatim>\<open>len(val) > 0 && val[0] == c.TableName\<close> on the first
  row), and the error of reading that row.
\<close>

definition catalog_query :: "'T PostgresPersistence \<Rightarrow> string" where
  "catalog_query c = ''SELECT to_regclass('' @ [CHR 0x27] @ QuotedTableName c @ [CHR 0x27] @ '')''"

definition catalog_row_error :: "Rows \<Rightarrow> error option" where
  "catalog_row_error qResult =
     (case Next qResult of
        (True, qResult1) \<Rightarrow> snd (Values qResult1)
      | (False, qResult1) \<Rightarrow> None)"

definition table_resolves :: "'T PostgresPersistence \<Rightarrow> Rows \<Rightarrow> bool" where
  "table_resolves c qResult =
     (case Next qResult of
        (True, qResult1) \<Rightarrow>
          (case Values qResult1 of
             (val, Some cErr) \<Rightarrow> False
           | (val, None) \<Rightarrow> length (spread val) > 0 \<and> hd (spread val) = Str (TableName c))
      | (False, qResult1) \<Rightarrow> False)"

text \<open>
  The contract of a JSON engine's \<^verbatim>\<open>FromJson\<close> under which a decoding failure is
  invisible: with an error it hands out the zero value.
\<close>

definition zero_on_error :: "(string \<Rightarrow> 'T \<times> error option) \<Rightarrow> 'T \<Rightarrow> bool" where
  "zero_on_error fromJson z = (\<forall>text item e. fromJson text = (item, Some e) \<longrightarrow> item = z)"

section \<open>Example components\<close>

text \<open>
  A pool, cursors and a persistence over the table \<^verbatim>\<open>dummies\<close> of the test suite, whose
  entities are kept as their JSON text.
\<close>

definition example_pool :: Pool where
  "example_pool =
     \<lparr>Config = \<lparr>ConnectTimeout = 0, Database = ''test'', MaxConnIdleTime = 0, MaxConns = 0\<rparr>\<rparr>"

definition example_rows :: "string list \<Rightarrow> any list list \<Rightarrow> Rows" where
  "example_rows columns rowValues =
     \<lparr>pending = map (\<lambda>vs. (Some vs, None)) rowValues, current = (None, None),
      FieldDescriptions = columns, Err = None\<rparr>"

definition example_library :: "(trace \<Rightarrow> string \<Rightarrow> error + Rows) \<Rightarrow> Library" where
  "example_library answer =
     \<lparr>Query = (\<lambda>pool tr q args. answer tr q),
      json_Marshal = (\<lambda>v. if v = Map [] then (''{}'', None)
                           else if v = Map [(''id'', Str ''1''), (''key'', Str ''A'')]
                           then (''{id:1,key:A}'', None)
                           else if v = Map [(''id'', Int64 1)] then (''{id:1}'', None)
                           else ([], Some (DriverError ''json: unsupported value''))),
      json_Unmarshal = (\<lambda>js. if js = ''{}'' then (Some [], None)
                              else if js = ''{id:1,key:A}''
                              then (Some [(''id'', Str ''1''), (''key'', Str ''A'')], None)
                              else if js = ''{id:1}'' then (Some [(''id'', Float64 1)], None)
                              else (None, Some (DriverError ''json: cannot unmarshal''))),
      ToJson = (\<lambda>v. if v = Map [(''id'', Str ''1''), (''key'', Str ''A'')]
                     then (''{id:1,key:A}'', None)
                     else ([], Some (DriverError ''json: unsupported value''))),
      ToLong = (\<lambda>v. case v of Int64 n \<Rightarrow> n | _ \<Rightarrow> 0),
      Int63 = 7,
      EmptyTotalValue = - 1\<rparr>"

definition example_fromJson :: "string \<Rightarrow> string \<times> error option" where
  "example_fromJson text =
     (if text = ''{id:1,key:A}'' then (text, None)
      else ([], Some (DriverError ''json: cannot unmarshal'')))"

definition dummies :: "Library \<Rightarrow> string PostgresPersistence" where
  "dummies lib =
     \<lparr>Overrides =
        \<lparr>ConvertFromPublic = (\<lambda>item. if item = ''{}'' then Some []
                                      else Some [(''id'', Str ''1''), (''key'', Str ''A'')]),
         ConvertToPublic = (\<lambda>rows. case fst (Values rows) of
                                     None \<Rightarrow> Return []
                                   | Some vs \<Rightarrow> Return ''{id:1,key:A}''),
         ConvertFromPublicPartial = (\<lambda>m. m)\<rparr>,
      JsonConvertor = example_fromJson,
      defaultValue = [],
      config = None,
      opened = False,
      localConnection = False,
      schemaStatements = [],
      Connection = Some \<lparr>Options = [], Connection = Some example_pool, DatabaseName = ''test''\<rparr>,
      Client = Some example_pool,
      DatabaseName = ''test'',
      SchemaName = [],
      TableName = ''dummies'',
      MaxPageSize = 100\<rparr>"

text \<open>The schema of the test suite's map persistence.\<close>

definition dummies_DefineSchema :: "string PostgresPersistence \<Rightarrow> string PostgresPersistence" where
  "dummies_DefineSchema c =
     (let c1 = ClearSchema c;
          c2 = DefineSchema c1;
          c3 = EnsureSchema c2 (''CREATE TABLE '' @ DQ @ TableName c2 @ DQ @ '' ('' @ DQ @ ''id'' @ DQ
                 @ '' TEXT PRIMARY KEY, '' @ DQ @ ''key'' @ DQ @ '' TEXT, '' @ DQ @ ''content'' @ DQ
                 @ '' TEXT)'')
      in EnsureIndex c3 (TableName c3 @ ''_key'') [(''key'', ''1'')] [(''unique'', ''true'')])"



definition failing_resolver :: Driver where
  "failing_resolver =
     \<lparr>Resolve = (\<lambda>correlationId. ([], Some (DriverError ''connection is not configured''))),
      ParseConfig = (\<lambda>uri. (Config example_pool, None)),
      ConnectConfig = (\<lambda>cfg. (Some example_pool, None))\<rparr>"

definition failing_parser :: Driver where
  "failing_parser =
     \<lparr>Resolve = (\<lambda>correlationId. (''postgres:/'', None)),
      ParseConfig = (\<lambda>uri. (Config example_pool, Some (DriverError ''cannot parse''))),
      ConnectConfig = (\<lambda>cfg. (Some example_pool, None))\<rparr>"

text \<open>A library whose pool refuses every statement.\<close>

definition no_database :: Library where
  "no_database = example_library (\<lambda>tr q. Inl (DriverError ''connection lost''))"

text \<open>
  A library whose pool counts three rows and then loses the connection: the first
  statement of a call is answered with one row holding 3, every later one with an error.
\<close>

definition count_then_fail :: Library where
  "count_then_fail =
     example_library
       (\<lambda>tr q. if queries_of tr = [] then Inr (example_rows [''count''] [[Int64 3]])
                else Inl (DriverError ''connection lost''))"

text \<open>
  A library whose catalog knows no table (the first statement of a call is answered with
  one row holding NULL) and whose pool refuses every later statement.
\<close>

definition ddl_fails :: Library where
  "ddl_fails =
     example_library
       (\<lambda>tr q. if queries_of tr = [] then Inr (example_rows [''to_regclass''] [[Nil]])
                else Inl (DriverError ''permission denied''))"

text \<open>
  A library whose catalog resolves the table \<^verbatim>\<open>dummies\<close>, one whose catalog query fails
  through its cursor (no row, and \<^verbatim>\<open>Err()\<close> reports the failure), and one whose catalog
  answers with a row that cannot be read.
\<close>

definition table_known :: Library where
  "table_known = example_library (\<lambda>tr q. Inr (example_rows [''to_regclass''] [[Str ''dummies'']]))"

definition catalog_cursor_error :: Library where
  "catalog_cursor_error =
     example_library
       (\<lambda>tr q. if queries_of tr = []
                then Inr ((example_rows [''to_regclass''] [])\<lparr>Err := Some (DriverError ''connection lost'')\<rparr>)
                else Inr (example_rows [] []))"

definition catalog_unreadable :: Library where
  "catalog_unreadable =
     example_library
       (\<lambda>tr q. Inr ((example_rows [''to_regclass''] [])
                       \<lparr>pending := [(None, Some (DriverError ''cannot read row''))]\<rparr>))"

section \<open>Properties\<close>

subsection \<open>Auxiliary facts\<close>

lemma queries_of_append: "queries_of (a @ b) = queries_of a @ queries_of b"
  by (induction a rule: queries_of.induct) auto

lemma returned_row_queries:
  "queries_of (snd (returned_row c correlationId message idValue answer errFromRows tr)) = queries_of tr"
  by (simp add: returned_row_def Let_def queries_of_append
      split: sum.splits prod.splits option.splits outcome.splits bool.splits)




















lemma str_case:
  "(case x of Nil \<Rightarrow> d | Bool b \<Rightarrow> d | Int64 i \<Rightarrow> d | Float64 r \<Rightarrow> d
      | Str s \<Rightarrow> (if s \<noteq> [] then A s else d)
      | Slice l \<Rightarrow> d | Map m \<Rightarrow> d | NilMap \<Rightarrow> d | Other t \<Rightarrow> d)
   = (if string_arg x = [] then d else A (string_arg x))"
  by (cases x) auto

lemma GetPageByFilter_query_spec:
  "GetPageByFilter_query c filterArg paging sortArg sel =
     spec_page_query (QuotedTableName c) (string_arg sel) (string_arg filterArg) (string_arg sortArg)
       (case Skip paging of None \<Rightarrow> - 1 | Some offset \<Rightarrow> offset)
       (case Take paging of None \<Rightarrow> MaxPageSize c | Some limit \<Rightarrow> limit)"
  by (simp add: GetPageByFilter_query_def Let_def str_case spec_page_query_def GetSkip_def GetTake_def)

lemma GetPageByFilter_first_query:
  assumes "Client c = Some client"
  shows "\<exists>rest. queries_of (snd (GetPageByFilter lib c correlationId filterArg paging sortArg sel tr)) =
           queries_of tr @ (GetPageByFilter_query c filterArg paging sortArg sel, []) # rest"
  using assms
  by (auto simp: GetPageByFilter_def Let_def queries_of_append
      split: sum.splits prod.splits outcome.splits bool.splits)

lemma CreateSchema_statements_queries:
  "queries_of (CreateSchema_statements lib client correlationId stmts tr) =
     queries_of tr @ map (\<lambda>dml. (dml, [])) stmts"
  by (induction stmts arbitrary: tr) (auto simp: queries_of_append split: sum.splits)

lemma CreateSchema_statements_append:
  "CreateSchema_statements lib client correlationId (pre @ post) tr =
     CreateSchema_statements lib client correlationId post
       (CreateSchema_statements lib client correlationId pre tr)"
  by (induction pre arbitrary: tr) (auto split: sum.splits)





lemma Split_comma_nonempty: "Split_comma s \<noteq> []"
  by (induction s) (auto split: list.splits)

lemma Split_comma_filter:
  "Split_comma (filter (\<lambda>ch. ch \<noteq> CHR 0x22) s) = map (filter (\<lambda>ch. ch \<noteq> CHR 0x22)) (Split_comma s)"
  by (induction s) (auto simp: Split_comma_nonempty split: list.splits)

lemma length_Split_comma: "length (Split_comma s) = Suc (count_list s (CHR '',''))"
  by (induction s) (auto simp: Split_comma_nonempty split: list.splits)

lemma map_of_assign: "map_of (assign m k v) = (map_of m)(k \<mapsto> v)"
  by (induction m k v rule: assign.induct) auto

lemma map_of_jsonb_concat:
  "distinct (map fst patch) \<Longrightarrow>
   map_of (jsonb_concat stored patch) k =
     (case map_of patch k of Some v \<Rightarrow> Some v | None \<Rightarrow> map_of stored k)"
  unfolding jsonb_concat_def
proof (induction patch arbitrary: stored)
  case Nil
  then show ?case by simp
next
  case (Cons kv patch)
  obtain a b where kv: "kv = (a, b)" by (cases kv)
  from Cons.prems kv have fresh: "map_of patch a = None" and rest: "distinct (map fst patch)"
    by (auto simp: map_of_eq_None_iff)
  show ?case
    using Cons.IH [OF rest, of "assign stored a b"] fresh
    by (auto simp: kv map_of_assign split: option.splits)
qed

lemma jsonb_concat_lookup:
  assumes "distinct (map fst patch)"
  shows "index_any (jsonb_concat stored patch) k =
           (if k \<in> fst ` set patch then index_any patch k else index_any stored k)"
proof -
  have "k \<in> fst ` set patch \<longleftrightarrow> map_of patch k \<noteq> None"
    by (simp add: map_of_eq_None_iff)
  then show ?thesis
    using map_of_jsonb_concat [OF assms, of stored k]
    by (auto simp: index_any_def split: option.splits)
qed

lemma CreateSchema_cases:
  assumes "schemaStatements c \<noteq> []" and "Client c = Some client"
  shows "CreateSchema lib c correlationId tr =
     (case Query lib client tr (catalog_query c) [] of
        Inl qErr \<Rightarrow> (Return (Some qErr), tr @ [Queried (catalog_query c) []])
      | Inr qResult \<Rightarrow>
          (case catalog_row_error qResult of
             Some cErr \<Rightarrow> (Return (Some cErr), tr @ [Queried (catalog_query c) []])
           | None \<Rightarrow>
               (if table_resolves c qResult
                then (Return None, tr @ [Queried (catalog_query c) []])
                else CreateSchema_objects lib c client correlationId (snd (Next qResult))
                       (tr @ [Queried (catalog_query c) []]))))"
  using assms
  by (auto simp: CreateSchema_def catalog_query_def catalog_row_error_def table_resolves_def Let_def
      split: sum.splits prod.splits option.splits bool.splits)

lemma Open_after_schema:
  assumes "\<not> opened c" and "Connection c = Some conn"
    and "(if localConnection c then PostgresConnection_Open d conn correlationId tr
          else (None, conn, tr)) = (None, conn1, tr1)"
    and "IsOpen conn1"
    and "c5 = defineSchema (c\<lparr>Connection := Some conn1, opened := False,
                               Client := GetConnection conn1, DatabaseName := GetDatabaseName conn1\<rparr>)"
    and "CreateSchema lib c5 correlationId tr1 = (Return None, tr2)"
  shows "PostgresPersistence_Open d lib defineSchema c correlationId tr =
      (Return None, c5\<lparr>opened := True\<rparr>,
       tr2 @ [LogDebug correlationId ''Connected to postgres database %s, collection %s''
                [Str (DatabaseName c5), Str (QuotedTableName c5)]])"
  using assms(1-4,6)
  by (simp add: PostgresPersistence_Open_def Let_def assms(5) [symmetric])

lemma dummies_schema:
  "schemaStatements (dummies_DefineSchema (dummies lib)) =
     [''CREATE TABLE '' @ DQ @ ''dummies'' @ DQ @ '' ('' @ DQ @ ''id'' @ DQ
        @ '' TEXT PRIMARY KEY, '' @ DQ @ ''key'' @ DQ @ '' TEXT, '' @ DQ @ ''content'' @ DQ @ '' TEXT)'',
      ''CREATE UNIQUE INDEX IF NOT EXISTS '' @ DQ @ ''dummies_key'' @ DQ @ '' ON '' @ DQ @ ''dummies'' @ DQ
        @ ''(key)'']"
  and dummies_names:
  "TableName (dummies_DefineSchema (dummies lib)) = ''dummies''"
  "SchemaName (dummies_DefineSchema (dummies lib)) = []"
  "Client (dummies_DefineSchema (dummies lib)) = Some example_pool"
  "QuotedTableName (dummies_DefineSchema (dummies lib)) = DQ @ ''dummies'' @ DQ"
  by (simp_all add: dummies_DefineSchema_def dummies_def ClearSchema_def DefineSchema_def
      EnsureSchema_def EnsureIndex_def QuoteIdentifier_def QuotedTableName_def index_str_def Let_def)

lemma dummies_catalog_query:
  "catalog_query (dummies_DefineSchema (dummies lib)) =
     ''SELECT to_regclass('' @ [CHR 0x27] @ DQ @ ''dummies'' @ DQ @ [CHR 0x27] @ '')''"
  by (simp add: catalog_query_def dummies_names)

subsection \<open>Opening the connection\<close>

text \<open>
  C1 at its failing inputs: when the resolver fails, and when the connection string
  cannot be parsed, \<^verbatim>\<open>PostgresConnection.Open\<close> logs the error and returns nil, and the
  connection holds no pool.
\<close>

theorem Open_failures_return_nil:
  "PostgresConnection_Open failing_resolver NewPostgresConnection ''123'' [] =
     (None, NewPostgresConnection,
      [LogError ''123'' (DriverError ''connection is not configured'')
         ''Failed to resolve Postgres connection''])
   \<and> PostgresConnection_Open failing_parser NewPostgresConnection ''123'' [] =
     (None, NewPostgresConnection,
      [LogError ''123'' (DriverError ''cannot parse'') ''Failed to parse Postgres config string''])
   \<and> IsOpen NewPostgresConnection = False"
  by (simp add: PostgresConnection_Open_def failing_resolver_def failing_parser_def
      NewPostgresConnection_def IsOpen_def Let_def)

subsection \<open>Page queries\<close>

text \<open>
  C2. With a client in place, the first statement \<^verbatim>\<open>GetPageByFilter\<close> gives to the pool
  is \<^verbatim>\<open>SELECT [projection|*] FROM table [WHERE filter] [ORDER BY sort] [OFFSET skip] LIMIT take\<close>
  with no bound values: the projection, the filter and the sort are there exactly when
  the argument is a non-empty string, the offset exactly when the skip (-1 when unset) is
  not negative, and the limit is the paging take, or the configured maximum page size
  when the take is unset.
\<close>

theorem GetPageByFilter_query_shape:
  assumes "Client c = Some client"
  shows "\<exists>rest. queries_of (snd (GetPageByFilter lib c correlationId filterArg paging sortArg sel tr)) =
           queries_of tr @
             (spec_page_query (QuotedTableName c) (string_arg sel) (string_arg filterArg)
                (string_arg sortArg)
                (case Skip paging of None \<Rightarrow> - 1 | Some offset \<Rightarrow> offset)
                (case Take paging of None \<Rightarrow> MaxPageSize c | Some limit \<Rightarrow> limit), []) # rest"
  using GetPageByFilter_first_query [OF assms] by (simp add: GetPageByFilter_query_spec)

text \<open>
  C2 on the table \<^verbatim>\<open>dummies\<close>: a page with filter, sort, skip 0 and take 10, and a page
  with a projection and no paging values.
\<close>

theorem GetPageByFilter_query_shape_witness:
  "(\<exists>rest. queries_of (snd (GetPageByFilter no_database (dummies no_database) ''123''
                      (Str (''key='' @ [CHR 0x27] @ ''A'' @ [CHR 0x27]))
                      \<lparr>Skip = Some 0, Take = Some 10, Total = True\<rparr> (Str ''id'') Nil [])) =
      (''SELECT * FROM '' @ DQ @ ''dummies'' @ DQ @ '' WHERE key='' @ [CHR 0x27] @ ''A'' @ [CHR 0x27]
         @ '' ORDER BY id OFFSET 0 LIMIT 10'', []) # rest)
   \<and> (\<exists>rest. queries_of (snd (GetPageByFilter no_database (dummies no_database) ''123''
                      Nil \<lparr>Skip = None, Take = None, Total = False\<rparr> Nil (Str ''id, key'') [])) =
      (''SELECT id, key FROM '' @ DQ @ ''dummies'' @ DQ @ '' LIMIT 100'', []) # rest)"
proof -
  have client: "Client (dummies no_database) = Some example_pool"
    by (simp add: dummies_def)
  have table: "QuotedTableName (dummies no_database) = DQ @ ''dummies'' @ DQ"
    and size: "MaxPageSize (dummies no_database) = 100"
    by (simp_all add: dummies_def QuotedTableName_def QuoteIdentifier_def)
  show ?thesis
    using GetPageByFilter_query_shape [OF client, where lib = no_database and correlationId = "''123''"
        and filterArg = "Str (''key='' @ [CHR 0x27] @ ''A'' @ [CHR 0x27])"
        and paging = "\<lparr>Skip = Some 0, Take = Some 10, Total = True\<rparr>"
        and sortArg = "Str ''id''" and sel = Nil and tr = "[]"]
      GetPageByFilter_query_shape [OF client, where lib = no_database and correlationId = "''123''"
        and filterArg = Nil and paging = "\<lparr>Skip = None, Take = None, Total = False\<rparr>"
        and sortArg = Nil and sel = "Str ''id, key''" and tr = "[]"]
    by (simp add: table size spec_page_query_def FormatInt_def FormatNat.simps)
qed

subsection \<open>Random sampling\<close>

text \<open>
  C3 at its failing input: the count query finds three rows and the second query fails;
  \<^verbatim>\<open>GetOneRandom\<close> returns the zero value and a nil error, the error of the second query
  is lost.
\<close>

theorem GetOneRandom_second_error_lost:
  "GetOneRandom count_then_fail (dummies count_then_fail) ''123'' Nil [] =
     (Return ([], None),
      [Queried (''SELECT COUNT(*) AS count FROM '' @ DQ @ ''dummies'' @ DQ) [],
       Queried (''SELECT * FROM '' @ DQ @ ''dummies'' @ DQ @ '' OFFSET 1 LIMIT 1'') []])"
  by (simp add: GetOneRandom_def count_then_fail_def example_library_def dummies_def
      example_rows_def Next_def Values_def random_count_def Int63n_def QuotedTableName_def
      QuoteIdentifier_def FormatInt_def FormatNat.simps Let_def)

subsection \<open>Schema bootstrap\<close>

text \<open>
  C4. \<^verbatim>\<open>Open\<close> on a persistence that is not opened and whose connection (local or
  shared) is open afterwards, with a non-empty schema, a catalog that answers without
  resolving the table and a catalog cursor that reports no error: whatever the pool
  answers to the pending statements, \<^verbatim>\<open>Open\<close> returns nil, the persistence is opened, and
  after the catalog query every pending statement was given to the pool, in order. In the
  statement loop a failing statement adds its error to the log and the loop goes on with
  the statements after it.
\<close>

theorem Open_survives_failed_statements:
  assumes "\<not> opened c" and "Connection c = Some conn"
    and "(if localConnection c then PostgresConnection_Open d conn correlationId tr
          else (None, conn, tr)) = (None, conn1, tr1)"
    and "IsOpen conn1"
    and "c5 = defineSchema (c\<lparr>Connection := Some conn1, opened := False,
                               Client := GetConnection conn1, DatabaseName := GetDatabaseName conn1\<rparr>)"
    and "schemaStatements c5 \<noteq> []" and "Client c5 = Some client"
    and "Query lib client tr1 (catalog_query c5) [] = Inr qResult"
    and "catalog_row_error qResult = None" and "\<not> table_resolves c5 qResult"
    and "Err (snd (Next qResult)) = None"
  shows "fst (PostgresPersistence_Open d lib defineSchema c correlationId tr) = Return None
       \<and> opened (fst (snd (PostgresPersistence_Open d lib defineSchema c correlationId tr)))
       \<and> queries_of (snd (snd (PostgresPersistence_Open d lib defineSchema c correlationId tr))) =
           queries_of tr1 @ (catalog_query c5, []) # map (\<lambda>dml. (dml, [])) (schemaStatements c5)
       \<and> (Query lib client (CreateSchema_statements lib client correlationId pre tr0) dml [] = Inl err \<longrightarrow>
            CreateSchema_statements lib client correlationId (pre @ dml # post) tr0 =
              CreateSchema_statements lib client correlationId post
                (CreateSchema_statements lib client correlationId pre tr0
                   @ [Queried dml [], LogError correlationId err ''Failed to autocreate database object'']))"
proof -
  have schema: "CreateSchema lib c5 correlationId tr1 =
      (Return None,
       CreateSchema_statements lib client correlationId (schemaStatements c5)
         (tr1 @ [Queried (catalog_query c5) [],
                 LogDebug correlationId
                   (''Table '' @ QuotedTableName c5 @ '' does not exist. Creating database objects...'') []]))"
    using assms(8-11)
    by (simp add: CreateSchema_cases [OF assms(6,7)] CreateSchema_objects_def Let_def)
  show ?thesis
    by (simp add: Open_after_schema [where defineSchema = defineSchema, OF assms(1-5) schema]
        CreateSchema_statements_queries queries_of_append CreateSchema_statements_append)
qed

text \<open>
  C4 on the test suite's schema, with a pool that refuses both statements: \<^verbatim>\<open>Open\<close>
  succeeds, both statements were issued and both errors are in the log.
\<close>

theorem Open_survives_failed_statements_witness:
  "fst (PostgresPersistence_Open failing_resolver ddl_fails dummies_DefineSchema (dummies ddl_fails)
          ''123'' []) = Return None
   \<and> opened (fst (snd (PostgresPersistence_Open failing_resolver ddl_fails dummies_DefineSchema
                         (dummies ddl_fails) ''123'' [])))
   \<and> queries_of (snd (snd (PostgresPersistence_Open failing_resolver ddl_fails dummies_DefineSchema
                             (dummies ddl_fails) ''123'' []))) =
     [(''SELECT to_regclass('' @ [CHR 0x27] @ DQ @ ''dummies'' @ DQ @ [CHR 0x27] @ '')'', []),
      (''CREATE TABLE '' @ DQ @ ''dummies'' @ DQ @ '' ('' @ DQ @ ''id'' @ DQ
         @ '' TEXT PRIMARY KEY, '' @ DQ @ ''key'' @ DQ @ '' TEXT, '' @ DQ @ ''content'' @ DQ @ '' TEXT)'', []),
      (''CREATE UNIQUE INDEX IF NOT EXISTS '' @ DQ @ ''dummies_key'' @ DQ @ '' ON '' @ DQ @ ''dummies'' @ DQ
         @ ''(key)'', [])]
   \<and> errors_logged (snd (snd (PostgresPersistence_Open failing_resolver ddl_fails dummies_DefineSchema
                                (dummies ddl_fails) ''123'' []))) =
     [DriverError ''permission denied'', DriverError ''permission denied'']"
proof -
  let ?conn = "\<lparr>Options = [], Connection = Some example_pool, DatabaseName = ''test''\<rparr>"
  let ?c5 = "dummies_DefineSchema (dummies ddl_fails)"
  have c5: "?c5 = dummies_DefineSchema ((dummies ddl_fails)\<lparr>Connection := Some ?conn, opened := False,
              Client := GetConnection ?conn, DatabaseName := GetDatabaseName ?conn\<rparr>)"
    by (simp add: dummies_def GetConnection_def GetDatabaseName_def)
  have first: "\<not> opened (dummies ddl_fails)"
    and conn: "Connection (dummies ddl_fails) = Some ?conn"
    and shared: "(if localConnection (dummies ddl_fails)
                  then PostgresConnection_Open failing_resolver ?conn ''123'' []
                  else (None, ?conn, [])) = (None, ?conn, [])"
    and isOpen: "IsOpen ?conn"
    by (simp_all add: dummies_def IsOpen_def)
  have shape: "fst (PostgresPersistence_Open failing_resolver ddl_fails dummies_DefineSchema
                      (dummies ddl_fails) ''123'' []) = Return None
     \<and> opened (fst (snd (PostgresPersistence_Open failing_resolver ddl_fails dummies_DefineSchema
                           (dummies ddl_fails) ''123'' [])))
     \<and> queries_of (snd (snd (PostgresPersistence_Open failing_resolver ddl_fails dummies_DefineSchema
                               (dummies ddl_fails) ''123'' []))) =
         (catalog_query ?c5, []) # map (\<lambda>dml. (dml, [])) (schemaStatements ?c5)"
    using Open_survives_failed_statements [where c = "dummies ddl_fails" and conn = ?conn
        and ?c5.0 = ?c5 and defineSchema = dummies_DefineSchema and client = example_pool
        and lib = ddl_fails and tr = "[]" and qResult = "example_rows [''to_regclass''] [[Nil]]"
        and d = failing_resolver and correlationId = "''123''", OF first conn shared isOpen c5]
    by (simp add: dummies_schema dummies_names ddl_fails_def example_library_def example_rows_def
          table_resolves_def catalog_row_error_def Next_def Values_def spread_def)
  have schema: "CreateSchema ddl_fails ?c5 ''123'' [] =
     (Return None,
      [Queried (catalog_query ?c5) [],
       LogDebug ''123'' (''Table '' @ DQ @ ''dummies'' @ DQ @ '' does not exist. Creating database objects...'') [],
       Queried (schemaStatements ?c5 ! 0) [],
       LogError ''123'' (DriverError ''permission denied'') ''Failed to autocreate database object'',
       Queried (schemaStatements ?c5 ! 1) [],
       LogError ''123'' (DriverError ''permission denied'') ''Failed to autocreate database object''])"
    by (simp add: CreateSchema_def CreateSchema_objects_def Let_def dummies_schema dummies_names
        ddl_fails_def example_library_def example_rows_def Next_def Values_def spread_def
        catalog_query_def)
  have logged: "errors_logged (snd (snd (PostgresPersistence_Open failing_resolver ddl_fails
                  dummies_DefineSchema (dummies ddl_fails) ''123'' []))) =
     [DriverError ''permission denied'', DriverError ''permission denied'']"
    by (simp add: Open_after_schema [where defineSchema = dummies_DefineSchema, OF first conn shared isOpen c5 schema])
  show ?thesis
    using shape logged by (simp add: dummies_catalog_query dummies_schema)
qed

text \<open>
  C5, as the code has it. With a non-empty list of pending statements and a client,
  \<^verbatim>\<open>CreateSchema\<close> first queries the catalog. If the call of that query returns an error,
  or the row it returns cannot be read, \<^verbatim>\<open>CreateSchema\<close> returns that error and executes
  no pending statement; if the table resolves it executes no pending statement and
  returns nil; otherwise it executes every pending statement in the order they were added
  and returns what \<^verbatim>\<open>Err()\<close> of the catalog cursor reports: nil, or the error of a catalog
  query that failed through its cursor.
\<close>

theorem CreateSchema_bootstrap:
  assumes "schemaStatements c \<noteq> []" and "Client c = Some client"
  shows "(Query lib client tr (catalog_query c) [] = Inl qErr \<longrightarrow>
            CreateSchema lib c correlationId tr =
              (Return (Some qErr), tr @ [Queried (catalog_query c) []]))
       \<and> (Query lib client tr (catalog_query c) [] = Inr qResult \<and> catalog_row_error qResult = Some cErr \<longrightarrow>
            CreateSchema lib c correlationId tr =
              (Return (Some cErr), tr @ [Queried (catalog_query c) []]))
       \<and> (Query lib client tr (catalog_query c) [] = Inr qResult \<and> table_resolves c qResult \<longrightarrow>
            CreateSchema lib c correlationId tr = (Return None, tr @ [Queried (catalog_query c) []]))
       \<and> (Query lib client tr (catalog_query c) [] = Inr qResult \<and> catalog_row_error qResult = None
            \<and> \<not> table_resolves c qResult \<longrightarrow>
            fst (CreateSchema lib c correlationId tr) = Return (Err (snd (Next qResult)))
            \<and> queries_of (snd (CreateSchema lib c correlationId tr)) =
                queries_of tr @ (catalog_query c, []) # map (\<lambda>dml. (dml, [])) (schemaStatements c))"
proof -
  have resolved: "catalog_row_error qResult = None" if "table_resolves c qResult"
    using that
    by (auto simp: catalog_row_error_def table_resolves_def split: prod.splits bool.splits option.splits)
  show ?thesis
    using resolved
    by (auto simp: CreateSchema_cases [OF assms] CreateSchema_objects_def Let_def
        CreateSchema_statements_queries queries_of_append)
qed

text \<open>
  C5 on the test suite's schema: a catalog query whose call fails, an unreadable catalog
  row, a table that resolves, a table that does not, and a catalog query that fails
  through its cursor.
\<close>

theorem CreateSchema_bootstrap_witness:
  "CreateSchema no_database (dummies_DefineSchema (dummies no_database)) ''123'' [] =
     (Return (Some (DriverError ''connection lost'')),
      [Queried (catalog_query (dummies_DefineSchema (dummies no_database))) []])
   \<and> CreateSchema catalog_unreadable (dummies_DefineSchema (dummies catalog_unreadable)) ''123'' [] =
     (Return (Some (DriverError ''cannot read row'')),
      [Queried (catalog_query (dummies_DefineSchema (dummies catalog_unreadable))) []])
   \<and> CreateSchema table_known (dummies_DefineSchema (dummies table_known)) ''123'' [] =
     (Return None, [Queried (catalog_query (dummies_DefineSchema (dummies table_known))) []])
   \<and> fst (CreateSchema ddl_fails (dummies_DefineSchema (dummies ddl_fails)) ''123'' []) = Return None
   \<and> queries_of (snd (CreateSchema ddl_fails (dummies_DefineSchema (dummies ddl_fails)) ''123'' [])) =
     [(''SELECT to_regclass('' @ [CHR 0x27] @ DQ @ ''dummies'' @ DQ @ [CHR 0x27] @ '')'', []),
      (''CREATE TABLE '' @ DQ @ ''dummies'' @ DQ @ '' ('' @ DQ @ ''id'' @ DQ
         @ '' TEXT PRIMARY KEY, '' @ DQ @ ''key'' @ DQ @ '' TEXT, '' @ DQ @ ''content'' @ DQ @ '' TEXT)'', []),
      (''CREATE UNIQUE INDEX IF NOT EXISTS '' @ DQ @ ''dummies_key'' @ DQ @ '' ON '' @ DQ @ ''dummies'' @ DQ
         @ ''(key)'', [])]
   \<and> fst (CreateSchema catalog_cursor_error (dummies_DefineSchema (dummies catalog_cursor_error))
            ''123'' []) = Return (Some (DriverError ''connection lost''))
   \<and> queries_of (snd (CreateSchema catalog_cursor_error
                         (dummies_DefineSchema (dummies catalog_cursor_error)) ''123'' [])) =
     [(''SELECT to_regclass('' @ [CHR 0x27] @ DQ @ ''dummies'' @ DQ @ [CHR 0x27] @ '')'', []),
      (''CREATE TABLE '' @ DQ @ ''dummies'' @ DQ @ '' ('' @ DQ @ ''id'' @ DQ
         @ '' TEXT PRIMARY KEY, '' @ DQ @ ''key'' @ DQ @ '' TEXT, '' @ DQ @ ''content'' @ DQ @ '' TEXT)'', []),
      (''CREATE UNIQUE INDEX IF NOT EXISTS '' @ DQ @ ''dummies_key'' @ DQ @ '' ON '' @ DQ @ ''dummies'' @ DQ
         @ ''(key)'', [])]"
proof -
  have stmts: "schemaStatements (dummies_DefineSchema (dummies lib)) \<noteq> []"
    and client: "Client (dummies_DefineSchema (dummies lib)) = Some example_pool" for lib
    by (simp_all add: dummies_schema dummies_names)
  note failed = CreateSchema_bootstrap [OF stmts client, where lib = no_database and tr = "[]"
      and qErr = "DriverError ''connection lost''" and correlationId = "''123''"]
  note unread = CreateSchema_bootstrap [OF stmts client, where lib = catalog_unreadable and tr = "[]"
      and cErr = "DriverError ''cannot read row''" and correlationId = "''123''"
      and qResult = "(example_rows [''to_regclass''] [])
                       \<lparr>pending := [(None, Some (DriverError ''cannot read row''))]\<rparr>"]
  note known = CreateSchema_bootstrap [OF stmts client, where lib = table_known and tr = "[]"
      and correlationId = "''123''" and qResult = "example_rows [''to_regclass''] [[Str ''dummies'']]"]
  note absent = CreateSchema_bootstrap [OF stmts client, where lib = ddl_fails and tr = "[]"
      and correlationId = "''123''" and qResult = "example_rows [''to_regclass''] [[Nil]]"]
  note cursor = CreateSchema_bootstrap [OF stmts client, where lib = catalog_cursor_error and tr = "[]"
      and correlationId = "''123''"
      and qResult = "(example_rows [''to_regclass''] [])\<lparr>Err := Some (DriverError ''connection lost'')\<rparr>"]
  have a: "CreateSchema no_database (dummies_DefineSchema (dummies no_database)) ''123'' [] =
     (Return (Some (DriverError ''connection lost'')),
      [Queried (catalog_query (dummies_DefineSchema (dummies no_database))) []])"
    using failed by (simp add: no_database_def example_library_def)
  have b: "CreateSchema catalog_unreadable (dummies_DefineSchema (dummies catalog_unreadable)) ''123'' [] =
     (Return (Some (DriverError ''cannot read row'')),
      [Queried (catalog_query (dummies_DefineSchema (dummies catalog_unreadable))) []])"
    using unread
    by (simp add: catalog_unreadable_def example_library_def example_rows_def catalog_row_error_def
        Next_def Values_def)
  have c: "CreateSchema table_known (dummies_DefineSchema (dummies table_known)) ''123'' [] =
     (Return None, [Queried (catalog_query (dummies_DefineSchema (dummies table_known))) []])"
    using known
    by (simp add: table_known_def example_library_def example_rows_def table_resolves_def
        Next_def Values_def spread_def dummies_names)
  have d: "fst (CreateSchema ddl_fails (dummies_DefineSchema (dummies ddl_fails)) ''123'' []) = Return None
     \<and> queries_of (snd (CreateSchema ddl_fails (dummies_DefineSchema (dummies ddl_fails)) ''123'' [])) =
     [(catalog_query (dummies_DefineSchema (dummies ddl_fails)), [])]
       @ map (\<lambda>dml. (dml, [])) (schemaStatements (dummies_DefineSchema (dummies ddl_fails)))"
    using absent
    by (simp add: ddl_fails_def example_library_def example_rows_def table_resolves_def
        catalog_row_error_def Next_def Values_def spread_def)
  have e: "fst (CreateSchema catalog_cursor_error (dummies_DefineSchema (dummies catalog_cursor_error))
                  ''123'' []) = Return (Some (DriverError ''connection lost''))
     \<and> queries_of (snd (CreateSchema catalog_cursor_error
                           (dummies_DefineSchema (dummies catalog_cursor_error)) ''123'' [])) =
     [(catalog_query (dummies_DefineSchema (dummies catalog_cursor_error)), [])]
       @ map (\<lambda>dml. (dml, [])) (schemaStatements (dummies_DefineSchema (dummies catalog_cursor_error)))"
    using cursor
    by (simp add: catalog_cursor_error_def example_library_def example_rows_def table_resolves_def
        catalog_row_error_def Next_def Values_def spread_def)
  show ?thesis
    using a b c d e by (simp add: dummies_catalog_query dummies_schema)
qed

text \<open>
  C5 as stated fails: when the pool refuses the catalog query the table does not
  resolve, and yet \<^verbatim>\<open>CreateSchema\<close> executes none of the two pending statements; it
  returns the error of the query.
\<close>

theorem CreateSchema_catalog_failure:
  "schemaStatements (dummies_DefineSchema (dummies no_database)) \<noteq> []
   \<and> CreateSchema no_database (dummies_DefineSchema (dummies no_database)) ''123'' [] =
       (Return (Some (DriverError ''connection lost'')),
        [Queried (''SELECT to_regclass('' @ [CHR 0x27] @ DQ @ ''dummies'' @ DQ @ [CHR 0x27] @ '')'') []])"
  by (simp add: CreateSchema_def dummies_DefineSchema_def dummies_def ClearSchema_def DefineSchema_def
      EnsureSchema_def EnsureIndex_def QuoteIdentifier_def QuotedTableName_def index_str_def Let_def
      no_database_def example_library_def)

subsection \<open>Document variant\<close>

text \<open>
  C6. With a client in place, the document variant's \<^verbatim>\<open>UpdatePartially\<close> gives the pool
  exactly one statement, \<^verbatim>\<open>UPDATE table SET "data"="data"||$2 WHERE "id"=$1 RETURNING *\<close>,
  with the id and the patch as bound values. Under the store's merge of a document with
  a patch (a patch has each key once), a key of the patch takes the patch's value and
  every other key keeps its stored value.
\<close>

theorem UpdatePartially_merges:
  "(Client c = Some client \<longrightarrow>
      queries_of (snd (IdentifiableJsonPostgresPersistence_UpdatePartially lib c correlationId
                         idValue patchArg tr)) =
        queries_of tr @
          [(''UPDATE '' @ QuotedTableName c @ '' SET '' @ DQ @ ''data'' @ DQ @ ''='' @ DQ @ ''data'' @ DQ
              @ ''||$2 WHERE '' @ DQ @ ''id'' @ DQ @ ''=$1 RETURNING *'',
            [idValue, box_map patchArg])])
   \<and> (distinct (map fst patch) \<longrightarrow>
        (\<forall>k. index_any (jsonb_concat stored patch) k =
               (if k \<in> fst ` set patch then index_any patch k else index_any stored k)))"
  by (simp add: IdentifiableJsonPostgresPersistence_UpdatePartially_def Let_def
      returned_row_queries queries_of_append jsonb_concat_lookup)

text \<open>
  C6 on the scenario of the specification: the stored document \<^verbatim>\<open>{id:"1", a:1, b:2}\<close> and
  the patch \<^verbatim>\<open>{b:5}\<close> leave \<^verbatim>\<open>a\<close> at 1 and set \<^verbatim>\<open>b\<close> to 5.
\<close>

theorem UpdatePartially_merges_witness:
  "queries_of (snd (IdentifiableJsonPostgresPersistence_UpdatePartially no_database
                      (dummies no_database) ''123'' (Str ''1'') (Some [(''b'', Int64 5)]) [])) =
     [(''UPDATE '' @ DQ @ ''dummies'' @ DQ @ '' SET '' @ DQ @ ''data'' @ DQ @ ''='' @ DQ @ ''data'' @ DQ
         @ ''||$2 WHERE '' @ DQ @ ''id'' @ DQ @ ''=$1 RETURNING *'',
       [Str ''1'', Map [(''b'', Int64 5)]])]
   \<and> index_any (jsonb_concat [(''id'', Str ''1''), (''a'', Int64 1), (''b'', Int64 2)] [(''b'', Int64 5)]) ''a''
       = Int64 1
   \<and> index_any (jsonb_concat [(''id'', Str ''1''), (''a'', Int64 1), (''b'', Int64 2)] [(''b'', Int64 5)]) ''b''
       = Int64 5"
  using UpdatePartially_merges [where c = "dummies no_database" and client = example_pool
      and lib = no_database and correlationId = "''123''" and idValue = "Str ''1''"
      and patchArg = "Some [(''b'', Int64 5)]" and tr = "[]"
      and patch = "[(''b'', Int64 5)]"
      and stored = "[(''id'', Str ''1''), (''a'', Int64 1), (''b'', Int64 2)]"]
  by (simp add: dummies_def QuotedTableName_def QuoteIdentifier_def box_map_def index_any_def)

subsection \<open>Query builder\<close>

text \<open>
  C7, as the code has it. \<^verbatim>\<open>GenerateValues\<close> looks the columns up in the map that
  \<^verbatim>\<open>convertToMap\<close> makes of the values by a JSON round trip, not in the values themselves.
  When the values do not convert it returns nil. When they convert and the column list is
  not empty, it returns one element per comma-separated, unquoted column name of the
  list, in order: the value the converted map holds for that name, and nil for a name the
  map does not hold.
\<close>

theorem GenerateValues_lookup:
  "(convertToMap lib vals tr = (None, trAfter) \<longrightarrow>
      GenerateValues lib columns vals tr = (Return None, trAfter))
   \<and> (columns \<noteq> [] \<and> convertToMap lib vals tr = (Some items, trAfter) \<longrightarrow>
      GenerateValues lib columns vals tr =
        (Return (Some (map (\<lambda>name. case map_of items name of Some v \<Rightarrow> v | None \<Rightarrow> Nil)
                        (spec_column_names columns))), trAfter)
      \<and> length (spec_column_names columns) = Suc (count_list columns (CHR '','')))"
  by (simp add: GenerateValues_def spec_column_names_def ReplaceAll_quote_def Split_comma_filter
      index_any_def length_Split_comma Let_def)

text \<open>
  C7 on a projection with the columns \<^verbatim>\<open>id\<close> and \<^verbatim>\<open>key\<close> and the column list
  \<^verbatim>\<open>"key","id","content"\<close>, and on values that are no map.
\<close>

theorem GenerateValues_lookup_witness:
  "GenerateValues no_database (DQ @ ''key'' @ DQ @ '','' @ DQ @ ''id'' @ DQ @ '','' @ DQ @ ''content'' @ DQ)
     (Map [(''id'', Str ''1''), (''key'', Str ''A'')]) [] =
     (Return (Some [Str ''A'', Str ''1'', Nil]), [])
   \<and> GenerateValues no_database (DQ @ ''id'' @ DQ) (Slice [Str ''1'']) [] =
     (Return None,
      [LogError ''PostgresPersistence'' (DriverError ''json: unsupported value'')
         ''Error data convertion''])"
  using GenerateValues_lookup [where columns = "DQ @ ''key'' @ DQ @ '','' @ DQ @ ''id'' @ DQ @ '','' @ DQ @ ''content'' @ DQ"
      and lib = no_database and vals = "Map [(''id'', Str ''1''), (''key'', Str ''A'')]"
      and tr = "[]" and items = "[(''id'', Str ''1''), (''key'', Str ''A'')]" and trAfter = "[]"]
    GenerateValues_lookup [where columns = "DQ @ ''id'' @ DQ"
      and lib = no_database and vals = "Slice [Str ''1'']" and tr = "[]"
      and trAfter = "[LogError ''PostgresPersistence'' (DriverError ''json: unsupported value'')
                        ''Error data convertion'']"]
  by (simp add: convertToMap_def no_database_def example_library_def spec_column_names_def)

text \<open>
  C7 as stated fails: for a projection that holds a channel the result is nil, not a
  list with one element for the column \<^verbatim>\<open>id\<close>; and for a projection that holds the
  integer 1 the element is the number the JSON round trip reads back, a \<^verbatim>\<open>float64\<close>, not
  the projection's value.
\<close>

theorem GenerateValues_round_trip:
  "GenerateValues no_database (DQ @ ''id'' @ DQ) (Map [(''id'', Other ''chan int'')]) [] =
     (Return None,
      [LogError ''PostgresPersistence'' (DriverError ''json: unsupported value'')
         ''Error data convertion''])
   \<and> GenerateValues no_database (DQ @ ''id'' @ DQ) (Map [(''id'', Int64 1)]) [] =
     (Return (Some [Float64 1]), [])
   \<and> index_any [(''id'', Int64 1)] ''id'' = Int64 1"
  by (simp add: GenerateValues_def convertToMap_def no_database_def example_library_def
      ReplaceAll_quote_def index_any_def Let_def)




subsection \<open>Converter\<close>

text \<open>
  C8. For both strategies, \<^verbatim>\<open>ConvertToPublic\<close> returns a bare entity, so no error can
  reach its caller. When the values of the row cannot be read (an error, or no values)
  the result is the zero value; when the JSON engine fails to decode the row, the result
  is what the engine hands out with its error, the zero value for an engine that keeps
  that contract.
\<close>

theorem ConvertToPublic_failure_is_zero:
  "((snd (Values rows) = Some e \<or> fst (Values rows) = None) \<longrightarrow>
      PostgresPersistence_ConvertToPublic lib c rows = Return (defaultValue c)
      \<and> IdentifiableJsonPostgresPersistence_ConvertToPublic lib c rows = Return (defaultValue c))
   \<and> (zero_on_error (JsonConvertor c) (defaultValue c)
        \<and> Values rows = (Some vs, None)
        \<and> ConvertToPublic_range (FieldDescriptions rows) vs [] = Return buf \<longrightarrow>
      (snd (JsonConvertor c (fst (ToJson lib (Map buf)))) = Some e1 \<longrightarrow>
         PostgresPersistence_ConvertToPublic lib c rows = Return (defaultValue c))
      \<and> (snd (JsonConvertor c (fst (ToJson lib
                 (case map_of buf ''data'' of Some v \<Rightarrow> v | None \<Rightarrow> Map buf)))) = Some e2 \<longrightarrow>
         IdentifiableJsonPostgresPersistence_ConvertToPublic lib c rows = Return (defaultValue c)))"
proof -
  have read: "(snd (Values rows) = Some e \<or> fst (Values rows) = None) \<longrightarrow>
      PostgresPersistence_ConvertToPublic lib c rows = Return (defaultValue c)
      \<and> IdentifiableJsonPostgresPersistence_ConvertToPublic lib c rows = Return (defaultValue c)"
    by (cases "Values rows")
       (auto simp: PostgresPersistence_ConvertToPublic_def
          IdentifiableJsonPostgresPersistence_ConvertToPublic_def split: option.splits)
  have decode: "fst (JsonConvertor c js) = defaultValue c"
    if "zero_on_error (JsonConvertor c) (defaultValue c)" and "snd (JsonConvertor c js) = Some err"
    for js err
    using that by (cases "JsonConvertor c js") (auto simp: zero_on_error_def)
  have relational: "PostgresPersistence_ConvertToPublic lib c rows =
      Return (fst (JsonConvertor c (fst (ToJson lib (Map buf)))))"
    if "Values rows = (Some vs, None)"
      and "ConvertToPublic_range (FieldDescriptions rows) vs [] = Return buf"
    using that by (simp add: PostgresPersistence_ConvertToPublic_def split: prod.splits)
  have document: "IdentifiableJsonPostgresPersistence_ConvertToPublic lib c rows =
      Return (fst (JsonConvertor c (fst (ToJson lib
        (case map_of buf ''data'' of Some v \<Rightarrow> v | None \<Rightarrow> Map buf)))))"
    if "Values rows = (Some vs, None)"
      and "ConvertToPublic_range (FieldDescriptions rows) vs [] = Return buf"
    using that
    by (simp add: IdentifiableJsonPostgresPersistence_ConvertToPublic_def Let_def split: prod.splits)
  show ?thesis
    using read by (simp add: relational document decode)
qed

text \<open>
  C8 on the example persistence: a row whose values cannot be read, and a row the JSON
  engine cannot decode.
\<close>

theorem ConvertToPublic_failure_is_zero_witness:
  "PostgresPersistence_ConvertToPublic no_database (dummies no_database)
     ((example_rows [''id''] [])\<lparr>current := (None, Some (DriverError ''closed''))\<rparr>) = Return []
   \<and> IdentifiableJsonPostgresPersistence_ConvertToPublic no_database (dummies no_database)
     ((example_rows [''id''] [])\<lparr>current := (None, Some (DriverError ''closed''))\<rparr>) = Return []
   \<and> PostgresPersistence_ConvertToPublic no_database (dummies no_database)
     ((example_rows [''id''] [])\<lparr>current := (Some [Other ''bytes''], None)\<rparr>) = Return []
   \<and> IdentifiableJsonPostgresPersistence_ConvertToPublic no_database (dummies no_database)
     ((example_rows [''id''] [])\<lparr>current := (Some [Other ''bytes''], None)\<rparr>) = Return []"
proof -
  let ?unread = "(example_rows [''id''] [])\<lparr>current := (None, Some (DriverError ''closed''))\<rparr>"
  let ?undecoded = "(example_rows [''id''] [])\<lparr>current := (Some [Other ''bytes''], None)\<rparr>"
  have zero: "zero_on_error (JsonConvertor (dummies no_database)) (defaultValue (dummies no_database))"
    by (simp add: zero_on_error_def dummies_def example_fromJson_def)
  note unread = ConvertToPublic_failure_is_zero [where rows = ?unread and lib = no_database
      and c = "dummies no_database" and e = "DriverError ''closed''"]
  note undecoded = ConvertToPublic_failure_is_zero [where rows = ?undecoded and lib = no_database
      and c = "dummies no_database" and vs = "[Other ''bytes'']" and buf = "[(''id'', Other ''bytes'')]"
      and ?e1.0 = "DriverError ''json: cannot unmarshal''" and ?e2.0 = "DriverError ''json: cannot unmarshal''"]
  have a: "PostgresPersistence_ConvertToPublic no_database (dummies no_database) ?unread = Return []
      \<and> IdentifiableJsonPostgresPersistence_ConvertToPublic no_database (dummies no_database) ?unread = Return []"
    using unread by (simp add: Values_def example_rows_def dummies_def)
  have b: "PostgresPersistence_ConvertToPublic no_database (dummies no_database) ?undecoded = Return []
      \<and> IdentifiableJsonPostgresPersistence_ConvertToPublic no_database (dummies no_database) ?undecoded = Return []"
    using undecoded zero
    by (simp add: Values_def example_rows_def dummies_def no_database_def example_library_def
        example_fromJson_def)
  show ?thesis using a b by simp
qed

subsection \<open>Identifier quoting\<close>




end
